theory Spec2Isabelle
  imports Complex_Main "HOL-Library.Multiset"
begin

section \<open>The game store of \<^verbatim>\<open>src/store/gameStore.ts\<close>\<close>

text \<open>
  The store is one state record and a set of actions, each of which reads the record
  (\<^verbatim>\<open>get()\<close>) and replaces part of it (\<^verbatim>\<open>set(...)\<close>). An action is
  modelled as a function from the record to the record after the action. No action of the
  source throws: every guard is an early \<^verbatim>\<open>return\<close>, which is the branch that
  gives the record back as it was.

  Conventions of the embedding:
  \<^item> a TypeScript \<^verbatim>\<open>number\<close> that a caller or the catalogue supplies and the
    store computes with or compares (the player cap, the answer index, the time spent,
    the points) is a \<open>number\<close> below: a finite value, an infinity or \<^verbatim>\<open>NaN\<close>,
    with the arithmetic of IEEE 754 doubles; the question index, the remaining time and
    the two counts of the settings are \<^typ>\<open>int\<close>;
  \<^item> \<^verbatim>\<open>T | null\<close> is \<^typ>\<open>'a option\<close>; \<^verbatim>\<open>undefined\<close> read from an array
    out of range is \<^term>\<open>None\<close> as well, since the source only ever tests such a value for
    truthiness;
  \<^item> the score object of a room is a map from its own keys to JavaScript values; a read
    of a key that is not its own finds the members the object inherits from
    \<^verbatim>\<open>Object.prototype\<close>;
  \<^item> the two uses of \<^verbatim>\<open>Math.random()\<close> are parameters of the actions that make
    them: the id string drawn by \<^verbatim>\<open>createRoom\<close>, and a list of draws that selects
    the permutation produced by the randomly ordered \<^verbatim>\<open>sort\<close>;
  \<^item> the catalogue \<^verbatim>\<open>mockQuestions\<close> (imported from \<^verbatim>\<open>../data/questions\<close>) is a
    parameter of the actions that read it.
\<close>

subsection \<open>JavaScript numbers\<close>

text \<open>
  A \<^verbatim>\<open>number\<close> is an IEEE 754 double: a finite value, one of the two infinities,
  or \<^verbatim>\<open>NaN\<close>. The two zeros are one value here: the store never divides, and no
  operation it uses tells them apart.
\<close>

datatype number = Fin real | PInf | NInf | NaN

text \<open>The number of binary digits of a positive integer.\<close>

function bit_length :: "int \<Rightarrow> int" where
  "bit_length n = (if n \<le> 0 then 0 else 1 + bit_length (n div 2))"
  by pat_completeness auto
termination
  by (relation "measure nat") auto

declare bit_length.simps [simp del]

definition pow2 :: "int \<Rightarrow> real" where
  "pow2 e = (if 0 \<le> e then 2 ^ nat e else 1 / 2 ^ nat (- e))"

text \<open>The exponent \<open>k\<close> with \<open>2 ^ k \<le> \<bar>x\<bar> < 2 ^ (k + 1)\<close>, for \<open>x \<noteq> 0\<close>.\<close>

definition binade :: "real \<Rightarrow> int" where
  "binade x =
     (if 1 \<le> \<bar>x\<bar> then bit_length \<lfloor>\<bar>x\<bar>\<rfloor> - 1
      else - bit_length (\<lceil>1 / \<bar>x\<bar>\<rceil> - 1))"

definition round_half_even :: "real \<Rightarrow> int" where
  "round_half_even y =
     (let f = \<lfloor>y\<rfloor>; d = y - of_int f
      in if d < 1 / 2 then f else if 1 / 2 < d then f + 1
         else if even f then f else f + 1)"

text \<open>
  Rounding of a real result to the nearest double, ties to the even significand: 53
  binary digits, the least exponent \<open>- 1074\<close>, and an infinity from \<open>2 ^ 1024\<close> on.
\<close>

definition round64 :: "real \<Rightarrow> number" where
  "round64 x =
     (if x = 0 then Fin 0
      else let e = max (binade x - 52) (- 1074);
               r = of_int (round_half_even (x / pow2 e)) * pow2 e
           in if 2 ^ 1024 \<le> \<bar>r\<bar> then (if 0 < x then PInf else NInf) else Fin r)"

text \<open>\<^verbatim>\<open>a + b\<close>, \<^verbatim>\<open>a - b\<close> and \<^verbatim>\<open>a * b\<close> on numbers.\<close>

fun js_add :: "number \<Rightarrow> number \<Rightarrow> number" where
  "js_add NaN b = NaN"
| "js_add a NaN = NaN"
| "js_add PInf NInf = NaN"
| "js_add NInf PInf = NaN"
| "js_add PInf b = PInf"
| "js_add a PInf = PInf"
| "js_add NInf b = NInf"
| "js_add a NInf = NInf"
| "js_add (Fin a) (Fin b) = round64 (a + b)"

fun js_sub :: "number \<Rightarrow> number \<Rightarrow> number" where
  "js_sub NaN b = NaN"
| "js_sub a NaN = NaN"
| "js_sub PInf PInf = NaN"
| "js_sub NInf NInf = NaN"
| "js_sub PInf b = PInf"
| "js_sub a PInf = NInf"
| "js_sub NInf b = NInf"
| "js_sub a NInf = PInf"
| "js_sub (Fin a) (Fin b) = round64 (a - b)"

fun js_mul :: "number \<Rightarrow> number \<Rightarrow> number" where
  "js_mul NaN b = NaN"
| "js_mul a NaN = NaN"
| "js_mul (Fin a) (Fin b) = round64 (a * b)"
| "js_mul (Fin a) PInf = (if a = 0 then NaN else if 0 < a then PInf else NInf)"
| "js_mul (Fin a) NInf = (if a = 0 then NaN else if 0 < a then NInf else PInf)"
| "js_mul PInf (Fin b) = (if b = 0 then NaN else if 0 < b then PInf else NInf)"
| "js_mul NInf (Fin b) = (if b = 0 then NaN else if 0 < b then NInf else PInf)"
| "js_mul PInf PInf = PInf"
| "js_mul PInf NInf = NInf"
| "js_mul NInf PInf = NInf"
| "js_mul NInf NInf = PInf"

text \<open>\<^verbatim>\<open>a <= b\<close> and \<^verbatim>\<open>a >= b\<close>: false when either side is \<^verbatim>\<open>NaN\<close>.\<close>

fun js_le :: "number \<Rightarrow> number \<Rightarrow> bool" where
  "js_le NaN b = False"
| "js_le a NaN = False"
| "js_le NInf b = True"
| "js_le a PInf = True"
| "js_le PInf b = False"
| "js_le a NInf = False"
| "js_le (Fin a) (Fin b) = (a \<le> b)"

definition js_ge :: "number \<Rightarrow> number \<Rightarrow> bool" where
  "js_ge a b = js_le b a"

text \<open>\<^verbatim>\<open>a === b\<close> on numbers: \<^verbatim>\<open>NaN\<close> equals nothing.\<close>

definition js_eq :: "number \<Rightarrow> number \<Rightarrow> bool" where
  "js_eq a b = (a \<noteq> NaN \<and> b \<noteq> NaN \<and> a = b)"

text \<open>\<^verbatim>\<open>Math.max(a, b)\<close>: \<^verbatim>\<open>NaN\<close> when either argument is.\<close>

definition js_max :: "number \<Rightarrow> number \<Rightarrow> number" where
  "js_max a b = (if a = NaN \<or> b = NaN then NaN else if js_le a b then b else a)"

text \<open>\<^verbatim>\<open>xs.length\<close> as a number.\<close>

definition js_length :: "'a list \<Rightarrow> number" where
  "js_length xs = Fin (real (length xs))"

subsection \<open>Values of a score object\<close>

text \<open>
  The score object is a plain object. Its own entries are written by the store; besides
  numbers they can be strings, since \<^verbatim>\<open>+\<close> concatenates when its left operand is
  not a number. A string only ever arises as such a concatenation and is kept as one:
  \<open>JConcat v n\<close> is the string of \<open>v\<close> followed by the string of the number \<open>n\<close>.
  \<open>JInherited k\<close> is the member of \<^verbatim>\<open>Object.prototype\<close> named \<open>k\<close> (a function, or
  the prototype object itself for \<^verbatim>\<open>__proto__\<close>).
\<close>

datatype jsval = JNum number | JInherited string | JConcat jsval number

definition object_prototype_members :: "string list" where
  "object_prototype_members =
     [''constructor'', ''__defineGetter__'', ''__defineSetter__'', ''hasOwnProperty'',
      ''__lookupGetter__'', ''__lookupSetter__'', ''isPrototypeOf'',
      ''propertyIsEnumerable'', ''toString'', ''valueOf'', ''__proto__'',
      ''toLocaleString'']"

text \<open>
  \<^verbatim>\<open>obj[k]\<close>: the own entry; without one, the inherited member of that name;
  \<^verbatim>\<open>undefined\<close> (\<open>None\<close>) when there is neither.
\<close>

definition js_get :: "(string \<rightharpoonup> jsval) \<Rightarrow> string \<Rightarrow> jsval option" where
  "js_get obj k =
     (case obj k of
        Some v \<Rightarrow> Some v
      | None \<Rightarrow> if k \<in> set object_prototype_members then Some (JInherited k) else None)"

text \<open>
  Truthiness: \<open>0\<close> and \<^verbatim>\<open>NaN\<close> are falsy; a function, an object and a string that
  ends in the digits of a number are truthy.
\<close>

fun truthy :: "jsval \<Rightarrow> bool" where
  "truthy (JNum n) = (n \<noteq> Fin 0 \<and> n \<noteq> NaN)"
| "truthy (JInherited k) = True"
| "truthy (JConcat v n) = True"

text \<open>\<^verbatim>\<open>v || 0\<close> for a value \<open>v\<close> that may be \<^verbatim>\<open>undefined\<close>.\<close>

definition or_zero :: "jsval option \<Rightarrow> jsval" where
  "or_zero v = (case v of None \<Rightarrow> JNum (Fin 0)
                | Some w \<Rightarrow> if truthy w then w else JNum (Fin 0))"

text \<open>\<^verbatim>\<open>v + n\<close> for a number \<open>n\<close>: addition of numbers, concatenation otherwise.\<close>

fun js_plus :: "jsval \<Rightarrow> number \<Rightarrow> jsval" where
  "js_plus (JNum a) n = JNum (js_add a n)"
| "js_plus v n = JConcat v n"

subsection \<open>Data of \<^verbatim>\<open>../types/game\<close>\<close>

text \<open>
  Modelled from the spec: the declarations of \<^verbatim>\<open>User\<close>, \<^verbatim>\<open>GameRoom\<close>,
  \<^verbatim>\<open>Question\<close>, \<^verbatim>\<open>GameState\<close>, \<^verbatim>\<open>PlayerAnswer\<close> and
  \<^verbatim>\<open>GameSettings\<close> are imported by the store and not part of it. The fields are
  those the store reads and writes, with the attributes of the data model of the
  specification. Field names shared by several interfaces carry a prefix.
\<close>

record user =
  user_id :: string
  user_name :: string

datatype game_state = Waiting | Playing | Finished

record game_room =
  room_id :: string
  room_name :: string
  players :: "user list"
  maxPlayers :: number
  isPrivate :: bool
  gameState :: game_state
  questionIndex :: int
  timeRemaining :: int
  scores :: "string \<rightharpoonup> jsval"

record question =
  q_id :: string
  q_text :: string
  q_options :: "string list"
  correctAnswer :: number
  category :: string
  q_difficulty :: string
  q_points :: number

record player_answer =
  playerId :: string
  answerIndex :: number
  timeSpent :: number
  isCorrect :: bool
  pa_points :: number

record game_settings =
  questionsPerGame :: int
  timePerQuestion :: int
  difficulty :: string
  categories :: "string list"

text \<open>
  \<^verbatim>\<open>Partial<GameSettings>\<close>: each key is present with a value or absent.
\<close>

record partial_settings =
  p_questionsPerGame :: "int option"
  p_timePerQuestion :: "int option"
  p_difficulty :: "string option"
  p_categories :: "string list option"

subsection \<open>The state record\<close>

record game_store =
  currentUser :: "user option"
  isAuthenticated :: bool
  currentRoom :: "game_room option"
  availableRooms :: "game_room list"
  currentQuestion :: "question option"
  playerAnswers :: "player_answer list"
  gameSettings :: game_settings
  isLoading :: bool
  error :: "string option"
  showResults :: bool

definition defaultGameSettings :: game_settings where
  "defaultGameSettings =
     \<lparr>questionsPerGame = 10, timePerQuestion = 30, difficulty = ''mixed'',
      categories = [''recycling'', ''biodiversity'', ''energy'', ''climate-change'',
                    ''sustainable-consumption'', ''pollution'', ''conservation'']\<rparr>"

definition initial_store :: game_store where
  "initial_store =
     \<lparr>currentUser = None, isAuthenticated = False, currentRoom = None,
      availableRooms = [], currentQuestion = None, playerAnswers = [],
      gameSettings = defaultGameSettings, isLoading = False, error = None,
      showResults = False\<rparr>"

subsection \<open>JavaScript array operations used by the store\<close>

text \<open>
  \<^verbatim>\<open>xs.slice(0, e)\<close>: a negative end counts from the end of the array, and the end
  is clamped to the length.
\<close>

definition js_slice0 :: "'a list \<Rightarrow> int \<Rightarrow> 'a list" where
  "js_slice0 xs e =
     (let len = int (length xs);
          final = (if e < 0 then max (len + e) 0 else min e len)
      in take (nat final) xs)"

text \<open>\<^verbatim>\<open>xs[0] || null\<close>: the first element, absent for the empty array.\<close>

definition first_or_null :: "'a list \<Rightarrow> 'a option" where
  "first_or_null xs = (case xs of [] \<Rightarrow> None | x # _ \<Rightarrow> Some x)"

text \<open>
  \<^verbatim>\<open>a % b\<close> on integers takes the sign of the dividend; with \<open>b = 0\<close> it is
  \<^verbatim>\<open>NaN\<close>, which the caller below handles before it gets here.
\<close>

definition js_rem :: "int \<Rightarrow> int \<Rightarrow> int" where
  "js_rem a b = sgn a * (\<bar>a\<bar> mod \<bar>b\<bar>)"

text \<open>
  \<^verbatim>\<open>xs[n % xs.length]\<close>: \<^verbatim>\<open>undefined\<close> when the array is empty (the index is
  \<^verbatim>\<open>NaN\<close>) or the remainder is negative, the element otherwise.
\<close>

definition at_index_mod :: "'a list \<Rightarrow> int \<Rightarrow> 'a option" where
  "at_index_mod xs n =
     (if length xs = 0 then None
      else let i = js_rem n (int (length xs))
           in if 0 \<le> i \<and> i < int (length xs) then Some (xs ! nat i) else None)"

text \<open>
  \<^verbatim>\<open>xs.sort(() => 0.5 - Math.random())\<close>: the comparator answers at random, so the
  result is some permutation of \<open>xs\<close>. The draws \<open>rs\<close> select it: each draw picks the
  next element among those that remain; when the draws run out the rest keeps its order.
\<close>

fun shuffle :: "nat list \<Rightarrow> 'a list \<Rightarrow> 'a list" where
  "shuffle rs [] = []"
| "shuffle [] xs = xs"
| "shuffle (r # rs) xs =
     (let i = r mod length xs
      in xs ! i # shuffle rs (take i xs @ drop (Suc i) xs))"

subsection \<open>Question selection\<close>

text \<open>
  The filter written out twice in the source, in \<^verbatim>\<open>startGame\<close> and in
  \<^verbatim>\<open>nextQuestion\<close>: by difficulty unless the setting is \<^verbatim>\<open>'mixed'\<close>, then by
  the enabled categories.
\<close>

definition filteredQuestions :: "game_settings \<Rightarrow> question list \<Rightarrow> question list" where
  "filteredQuestions gs mockQuestions =
     (let fq = (if difficulty gs \<noteq> ''mixed''
                then filter (\<lambda>q. q_difficulty q = difficulty gs) mockQuestions
                else mockQuestions)
      in filter (\<lambda>q. category q \<in> set (categories gs)) fq)"

subsection \<open>Actions\<close>

definition setUser :: "user \<Rightarrow> game_store \<Rightarrow> game_store" where
  "setUser u s = s\<lparr>currentUser := Some u, isAuthenticated := True\<rparr>"

definition logout :: "game_store \<Rightarrow> game_store" where
  "logout s =
     s\<lparr>currentUser := None, isAuthenticated := False, currentRoom := None,
       currentQuestion := None, playerAnswers := [], showResults := False\<rparr>"

text \<open>\<open>rid\<close> is the string \<^verbatim>\<open>Math.random().toString(36).substr(2, 9)\<close>.\<close>

definition createRoom :: "string \<Rightarrow> number \<Rightarrow> bool \<Rightarrow> string \<Rightarrow> game_store \<Rightarrow> game_store" where
  "createRoom roomName maxP isPriv rid s =
     (case currentUser s of
        None \<Rightarrow> s
      | Some u \<Rightarrow>
          let newRoom = \<lparr>room_id = rid, room_name = roomName, players = [u],
                          maxPlayers = maxP, isPrivate = isPriv, gameState = Waiting,
                          questionIndex = 0, timeRemaining = 0,
                          scores = Map.empty(user_id u \<mapsto> JNum (Fin 0))\<rparr>
          in s\<lparr>currentRoom := Some newRoom,
                availableRooms := availableRooms s @ [newRoom]\<rparr>)"

definition joinRoom :: "string \<Rightarrow> game_store \<Rightarrow> game_store" where
  "joinRoom roomId s =
     (case currentUser s of
        None \<Rightarrow> s
      | Some u \<Rightarrow>
          (case find (\<lambda>r. room_id r = roomId) (availableRooms s) of
             None \<Rightarrow> s
           | Some room \<Rightarrow>
               if js_ge (js_length (players room)) (maxPlayers room) then s
               else
                 let updatedRoom = room\<lparr>players := players room @ [u],
                                         scores := (scores room)(user_id u \<mapsto> JNum (Fin 0))\<rparr>
                 in s\<lparr>currentRoom := Some updatedRoom,
                       availableRooms :=
                         map (\<lambda>r. if room_id r = roomId then updatedRoom else r)
                           (availableRooms s)\<rparr>))"

definition leaveRoom :: "game_store \<Rightarrow> game_store" where
  "leaveRoom s =
     s\<lparr>currentRoom := None, currentQuestion := None, playerAnswers := [],
       showResults := False\<rparr>"

definition startGame :: "question list \<Rightarrow> nat list \<Rightarrow> game_store \<Rightarrow> game_store" where
  "startGame mockQuestions rs s =
     (case currentRoom s of
        None \<Rightarrow> s
      | Some room \<Rightarrow>
          let gs = gameSettings s;
              shuffled = shuffle rs (filteredQuestions gs mockQuestions);
              selectedQuestions = js_slice0 shuffled (questionsPerGame gs);
              updatedRoom = room\<lparr>gameState := Playing, questionIndex := 0,
                                  timeRemaining := timePerQuestion gs\<rparr>
          in s\<lparr>currentRoom := Some updatedRoom,
                currentQuestion := first_or_null selectedQuestions,
                playerAnswers := []\<rparr>)"

text \<open>
  The score of the caller is read with \<open>js_get\<close>, defaulted with \<open>or_zero\<close> and
  increased with \<open>js_plus\<close>; the spread copies the own entries and the computed key
  writes an own entry.
\<close>

definition submitAnswer :: "number \<Rightarrow> number \<Rightarrow> game_store \<Rightarrow> game_store" where
  "submitAnswer answerIdx timeSp s =
     (case currentUser s of
        None \<Rightarrow> s
      | Some u \<Rightarrow>
          (case currentQuestion s of
             None \<Rightarrow> s
           | Some q \<Rightarrow>
               (case currentRoom s of
                  None \<Rightarrow> s
                | Some room \<Rightarrow>
                    let correct = js_eq answerIdx (correctAnswer q);
                        timeBonus = js_max (Fin 0) (js_mul (js_sub (Fin 30) timeSp) (Fin 2));
                        pts = (if correct then js_add (q_points q) timeBonus else Fin 0);
                        answer = \<lparr>playerId = user_id u, answerIndex = answerIdx,
                                   timeSpent = timeSp, isCorrect = correct,
                                   pa_points = pts\<rparr>;
                        updatedScores =
                          (scores room)(user_id u \<mapsto>
                             js_plus (or_zero (js_get (scores room) (user_id u))) pts)
                    in s\<lparr>playerAnswers := playerAnswers s @ [answer],
                          currentRoom := Some (room\<lparr>scores := updatedScores\<rparr>),
                          showResults := True\<rparr>)))"

definition endGame :: "game_store \<Rightarrow> game_store" where
  "endGame s =
     (case currentRoom s of
        None \<Rightarrow> s
      | Some room \<Rightarrow>
          s\<lparr>currentRoom := Some (room\<lparr>gameState := Finished\<rparr>),
            currentQuestion := None, showResults := True\<rparr>)"

definition nextQuestion :: "question list \<Rightarrow> nat list \<Rightarrow> game_store \<Rightarrow> game_store" where
  "nextQuestion mockQuestions rs s =
     (case currentRoom s of
        None \<Rightarrow> s
      | Some room \<Rightarrow>
          let gs = gameSettings s;
              nextIndex = questionIndex room + 1
          in if nextIndex \<ge> questionsPerGame gs then endGame s
             else
               let shuffled = shuffle rs (filteredQuestions gs mockQuestions);
                   nextQ = at_index_mod shuffled nextIndex
               in s\<lparr>currentRoom := Some (room\<lparr>questionIndex := nextIndex,
                                                timeRemaining := timePerQuestion gs\<rparr>),
                     currentQuestion := nextQ, showResults := False\<rparr>)"

text \<open>
  \<^verbatim>\<open>{ ...state.gameSettings, ...settings }\<close>: a key present in \<open>settings\<close>
  overrides the one of the current settings.
\<close>

definition setGameSettings :: "partial_settings \<Rightarrow> game_store \<Rightarrow> game_store" where
  "setGameSettings p s =
     (let old = gameSettings s
      in s\<lparr>gameSettings :=
             \<lparr>questionsPerGame =
                (case p_questionsPerGame p of None \<Rightarrow> questionsPerGame old | Some v \<Rightarrow> v),
              timePerQuestion =
                (case p_timePerQuestion p of None \<Rightarrow> timePerQuestion old | Some v \<Rightarrow> v),
              difficulty =
                (case p_difficulty p of None \<Rightarrow> difficulty old | Some v \<Rightarrow> v),
              categories =
                (case p_categories p of None \<Rightarrow> categories old | Some v \<Rightarrow> v)\<rparr>\<rparr>)"

definition setError :: "string option \<Rightarrow> game_store \<Rightarrow> game_store" where
  "setError e s = s\<lparr>error := e\<rparr>"

definition setLoading :: "bool \<Rightarrow> game_store \<Rightarrow> game_store" where
  "setLoading b s = s\<lparr>isLoading := b\<rparr>"

subsection \<open>The action surface as a datatype\<close>

text \<open>
  One constructor per action of the store, with the arguments of the call and the random
  draws the call consumes. \<open>perform\<close> dispatches to the action, \<open>run\<close> performs a
  sequence of calls from left to right.
\<close>

datatype action =
    SetUser user
  | Logout
  | CreateRoom string number bool string
  | JoinRoom string
  | LeaveRoom
  | StartGame "nat list"
  | SubmitAnswer number number
  | NextQuestion "nat list"
  | EndGame
  | SetGameSettings partial_settings
  | SetError "string option"
  | SetLoading bool

fun perform :: "question list \<Rightarrow> action \<Rightarrow> game_store \<Rightarrow> game_store" where
  "perform mq (SetUser u) s = setUser u s"
| "perform mq Logout s = logout s"
| "perform mq (CreateRoom n m p rid) s = createRoom n m p rid s"
| "perform mq (JoinRoom i) s = joinRoom i s"
| "perform mq LeaveRoom s = leaveRoom s"
| "perform mq (StartGame rs) s = startGame mq rs s"
| "perform mq (SubmitAnswer a t) s = submitAnswer a t s"
| "perform mq (NextQuestion rs) s = nextQuestion mq rs s"
| "perform mq EndGame s = endGame s"
| "perform mq (SetGameSettings p) s = setGameSettings p s"
| "perform mq (SetError e) s = setError e s"
| "perform mq (SetLoading b) s = setLoading b s"

fun run :: "question list \<Rightarrow> action list \<Rightarrow> game_store \<Rightarrow> game_store" where
  "run mq [] s = s"
| "run mq (a # as) s = run mq as (perform mq a s)"

text \<open>Actions that replace or clear the active-room slot.\<close>

fun switches_room :: "action \<Rightarrow> bool" where
  "switches_room (CreateRoom n m p rid) = True"
| "switches_room (JoinRoom i) = True"
| "switches_room LeaveRoom = True"
| "switches_room Logout = True"
| "switches_room a = False"

fun is_StartGame :: "action \<Rightarrow> bool" where
  "is_StartGame (StartGame rs) = True"
| "is_StartGame a = False"

fun is_CreateRoom :: "action \<Rightarrow> bool" where
  "is_CreateRoom (CreateRoom n m p rid) = True"
| "is_CreateRoom a = False"

fun is_JoinRoom :: "action \<Rightarrow> bool" where
  "is_JoinRoom (JoinRoom i) = True"
| "is_JoinRoom a = False"

text \<open>Successive calls of \<^verbatim>\<open>nextQuestion\<close>, one list of draws per call.\<close>

fun nextQuestions :: "question list \<Rightarrow> nat list list \<Rightarrow> game_store \<Rightarrow> game_store" where
  "nextQuestions mq [] s = s"
| "nextQuestions mq (rs # rss) s = nextQuestions mq rss (nextQuestion mq rs s)"

subsection \<open>Properties of states\<close>

text \<open>The position of a lifecycle state on the line waiting, playing, finished.\<close>

fun phase :: "game_state \<Rightarrow> nat" where
  "phase Waiting = 0"
| "phase Playing = 1"
| "phase Finished = 2"

definition within_capacity :: "game_room \<Rightarrow> bool" where
  "within_capacity r = js_le (js_length (players r)) (maxPlayers r)"

definition unique_ids :: "game_room \<Rightarrow> bool" where
  "unique_ids r = distinct (map user_id (players r))"

text \<open>A property of rooms holds of the active room and of every room of the lobby.\<close>

definition all_rooms :: "(game_room \<Rightarrow> bool) \<Rightarrow> game_store \<Rightarrow> bool" where
  "all_rooms P s =
     ((case currentRoom s of None \<Rightarrow> True | Some r \<Rightarrow> P r)
      \<and> list_all P (availableRooms s))"

subsection \<open>A concrete session\<close>

definition demo_user :: user where
  "demo_user = \<lparr>user_id = ''u1'', user_name = ''Ana''\<rparr>"

definition demo_q1 :: question where
  "demo_q1 =
     \<lparr>q_id = ''q1'', q_text = ''t1'', q_options = [''a'', ''b'', ''c'', ''d''],
      correctAnswer = Fin 1, category = ''recycling'', q_difficulty = ''easy'',
      q_points = Fin 50\<rparr>"

definition demo_q2 :: question where
  "demo_q2 =
     \<lparr>q_id = ''q2'', q_text = ''t2'', q_options = [''a'', ''b'', ''c'', ''d''],
      correctAnswer = Fin 2, category = ''energy'', q_difficulty = ''hard'',
      q_points = Fin 100\<rparr>"

definition demo_questions :: "question list" where
  "demo_questions = [demo_q1, demo_q2]"

definition demo_room :: game_room where
  "demo_room =
     \<lparr>room_id = ''k3x9q2m1z'', room_name = ''sala'', players = [demo_user],
      maxPlayers = Fin 4, isPrivate = False, gameState = Waiting, questionIndex = 0,
      timeRemaining = 0, scores = Map.empty(''u1'' \<mapsto> JNum (Fin 0))\<rparr>"

text \<open>The user logs in and creates a room; then the game is started.\<close>

definition demo_lobby :: game_store where
  "demo_lobby = createRoom ''sala'' (Fin 4) False ''k3x9q2m1z'' (setUser demo_user initial_store)"

definition demo_playing :: game_store where
  "demo_playing = startGame demo_questions [Suc 0] demo_lobby"

text \<open>The game is ended at its first question; later the settings ask for one question.\<close>

definition demo_finished :: game_store where
  "demo_finished = endGame demo_playing"

definition only_questionsPerGame :: "int \<Rightarrow> partial_settings" where
  "only_questionsPerGame n =
     \<lparr>p_questionsPerGame = Some n, p_timePerQuestion = None, p_difficulty = None,
      p_categories = None\<rparr>"

definition only_difficulty :: "string \<Rightarrow> partial_settings" where
  "only_difficulty d =
     \<lparr>p_questionsPerGame = None, p_timePerQuestion = None, p_difficulty = Some d,
      p_categories = None\<rparr>"

definition demo_partial :: partial_settings where
  "demo_partial =
     \<lparr>p_questionsPerGame = None, p_timePerQuestion = Some 60, p_difficulty = Some ''easy'',
      p_categories = Some [''energy'']\<rparr>"

definition demo_over :: game_store where
  "demo_over = setGameSettings (only_questionsPerGame 1) demo_finished"

text \<open>No question of the catalogue has the difficulty the settings ask for.\<close>

definition demo_medium :: game_store where
  "demo_medium = setGameSettings (only_difficulty ''medium'') demo_lobby"

text \<open>Rooms for zero players and for one player; the creator joining the own room.\<close>

definition demo_cramped :: game_store where
  "demo_cramped = createRoom ''sala'' (Fin 0) False ''k3x9q2m1z'' (setUser demo_user initial_store)"

definition demo_solo :: game_store where
  "demo_solo = createRoom ''solo'' (Fin 1) False ''a1b2c3d4e'' (setUser demo_user initial_store)"

definition demo_rejoined :: game_store where
  "demo_rejoined = joinRoom ''k3x9q2m1z'' demo_lobby"

text \<open>A second user in front of the lobby.\<close>

definition demo_guest :: user where
  "demo_guest = \<lparr>user_id = ''u2'', user_name = ''Bia''\<rparr>"

definition demo_guest_lobby :: game_store where
  "demo_guest_lobby = setUser demo_guest demo_lobby"

text \<open>
  A room for one and a half players, which the second user joins.
\<close>

definition demo_half :: game_store where
  "demo_half =
     joinRoom ''k3x9q2m1z''
       (setUser demo_guest
          (createRoom ''sala'' (Fin (3 / 2)) False ''k3x9q2m1z''
             (setUser demo_user initial_store)))"




section \<open>Rounding and the operations on numbers\<close>

text \<open>Rounding keeps the sign, and it keeps an integer of less than 54 binary digits.\<close>

lemma pow2_pos: "0 < pow2 e"
  by (simp add: pow2_def)

lemma round_half_even_of_int: "round_half_even (of_int m) = m"
  by (simp add: round_half_even_def)

lemma round_half_even_nonneg: "0 \<le> y \<Longrightarrow> 0 \<le> round_half_even y"
  by (simp add: round_half_even_def Let_def)

lemma round_half_even_nonpos:
  assumes "y \<le> 0"
  shows "round_half_even y \<le> 0"
proof (cases "y = 0")
  case True
  then show ?thesis by (simp add: round_half_even_def)
next
  case False
  with assms have "y < 0" by simp
  then have "\<lfloor>y\<rfloor> \<le> - 1" by (simp add: floor_le_iff)
  then show ?thesis
    using assms by (simp add: round_half_even_def Let_def)
qed

lemma round64_not_NaN: "round64 x \<noteq> NaN"
  by (simp add: round64_def Let_def)

lemma round64_nonneg:
  assumes "0 \<le> x"
  shows "js_le (Fin 0) (round64 x)"
proof -
  let ?e = "max (binade x - 52) (- 1074)"
  from assms have "0 \<le> x / pow2 ?e"
    using pow2_pos [of ?e] by simp
  then have "0 \<le> round_half_even (x / pow2 ?e)"
    by (rule round_half_even_nonneg)
  then have "0 \<le> of_int (round_half_even (x / pow2 ?e)) * pow2 ?e"
    using pow2_pos [of ?e] by simp
  with assms show ?thesis
    by (simp add: round64_def Let_def)
qed

lemma round64_nonpos:
  assumes "x \<le> 0"
  shows "js_le (round64 x) (Fin 0)"
proof -
  let ?e = "max (binade x - 52) (- 1074)"
  from assms have "x / pow2 ?e \<le> 0"
    using pow2_pos [of ?e] by (simp add: divide_le_0_iff)
  then have "round_half_even (x / pow2 ?e) \<le> 0"
    by (rule round_half_even_nonpos)
  then have "of_int (round_half_even (x / pow2 ?e)) * pow2 ?e \<le> 0"
    using pow2_pos [of ?e] by (simp add: mult_le_0_iff)
  with assms show ?thesis
    by (simp add: round64_def Let_def)
qed

lemma bit_length_nonneg: "0 \<le> bit_length n"
  by (induction n rule: bit_length.induct) (simp add: bit_length.simps)

lemma bit_length_le:
  assumes "n < 2 ^ m"
  shows "bit_length n \<le> int m"
  using assms
proof (induction m arbitrary: n)
  case 0
  then show ?case by (simp add: bit_length.simps)
next
  case (Suc m)
  show ?case
  proof (cases "n \<le> 0")
    case True
    then show ?thesis by (simp add: bit_length.simps)
  next
    case False
    from Suc.prems have "n div 2 < 2 ^ m" by simp
    from Suc.IH [OF this] False show ?thesis
      by (simp add: bit_length.simps [of n])
  qed
qed

lemma round64_of_int:
  assumes "\<bar>n\<bar> < 2 ^ 53"
  shows "round64 (of_int n) = Fin (of_int n)"
proof (cases "n = 0")
  case True
  then show ?thesis by (simp add: round64_def)
next
  case False
  let ?x = "of_int n :: real"
  let ?b = "bit_length \<bar>n\<bar>"
  have ab: "\<bar>?x\<bar> = of_int \<bar>n\<bar>" by simp
  from False have "1 \<le> \<bar>n\<bar>" by simp
  then have one: "1 \<le> \<bar>?x\<bar>"
    unfolding ab by (simp only: of_int_1_le_iff)
  have fl: "\<lfloor>\<bar>?x\<bar>\<rfloor> = \<bar>n\<bar>"
    unfolding ab by (rule floor_of_int)
  from one fl have bin: "binade ?x = ?b - 1"
    by (simp add: binade_def)
  have b0: "0 \<le> ?b" by (rule bit_length_nonneg)
  have b53: "?b \<le> 53" using bit_length_le [OF assms] by simp
  define j where "j = nat (53 - ?b)"
  from b0 b53 have e: "max (binade ?x - 52) (- 1074) = - int j"
    by (simp add: bin j_def)
  have p: "pow2 (- int j) = 1 / 2 ^ j"
    by (auto simp add: pow2_def)
  have q: "?x / pow2 (- int j) = of_int (n * 2 ^ j)"
    by (simp add: p)
  have r: "of_int (round_half_even (?x / pow2 (- int j))) * pow2 (- int j) = ?x"
    by (simp only: q round_half_even_of_int) (simp add: p)
  have "\<bar>?x\<bar> < 2 ^ 1024"
  proof -
    from assms have "of_int \<bar>n\<bar> < (2::real) ^ 53"
      by (simp only: of_int_less_numeral_power_cancel_iff)
    then have "\<bar>?x\<bar> < 2 ^ 53" unfolding ab .
    also have "(2::real) ^ 53 \<le> 2 ^ 1024"
      by (rule power_increasing) simp_all
    finally show ?thesis .
  qed
  then have "\<not> 2 ^ 1024 \<le> \<bar>?x\<bar>" by simp
  with False show ?thesis
    unfolding round64_def Let_def e r by simp
qed

text \<open>The time bonus and the sum of points and bonus.\<close>

lemma js_max_zero_nonpos:
  assumes "js_le z (Fin 0)"
  shows "js_max (Fin 0) z = Fin 0"
  using assms by (cases z) (auto simp add: js_max_def)

lemma js_max_zero_nonneg:
  assumes "z \<noteq> NaN"
  shows "js_le (Fin 0) (js_max (Fin 0) z)"
  using assms by (cases z) (auto simp add: js_max_def)

lemma js_sub_30_nonpos:
  assumes "js_ge t (Fin 30)"
  shows "js_le (js_sub (Fin 30) t) (Fin 0)"
  using assms by (cases t) (auto simp add: js_ge_def intro: round64_nonpos)

lemma js_mul_2_nonpos:
  assumes "js_le y (Fin 0)"
  shows "js_le (js_mul y (Fin 2)) (Fin 0)"
  using assms by (cases y) (auto intro: round64_nonpos)

lemma js_bonus_not_NaN:
  assumes "t \<noteq> NaN"
  shows "js_mul (js_sub (Fin 30) t) (Fin 2) \<noteq> NaN"
proof (cases t)
  case (Fin a)
  show ?thesis
  proof (cases "round64 (30 - a)")
    case NaN
    with round64_not_NaN show ?thesis by blast
  qed (simp_all add: Fin round64_not_NaN)
qed (use assms in simp_all)

lemma js_add_nonneg:
  assumes "js_le (Fin 0) p" and "js_le (Fin 0) b"
  shows "js_le (Fin 0) (js_add p b)"
  using assms by (cases p; cases b) (auto intro: round64_nonneg)

lemma round64_numeral:
  assumes "(numeral k :: int) < 2 ^ 53"
  shows "round64 (numeral k) = Fin (numeral k)"
  using assms round64_of_int [of "numeral k"] by simp

lemma round64_neg_numeral:
  assumes "(numeral k :: int) < 2 ^ 53"
  shows "round64 (- numeral k) = Fin (- numeral k)"
  using assms round64_of_int [of "- numeral k"] by simp

text \<open>
  The rounding at some doubles that are well known: \<open>2 ^ 53 + 1\<close> is a tie and goes to
  the even neighbour, so adding \<open>1\<close> to \<open>2 ^ 53\<close> changes nothing; \<open>0.1\<close>, and the sum
  of \<open>0.1\<close> and \<open>0.2\<close>, which is not the double \<open>0.3\<close>; a product past the largest
  double.
\<close>

lemma bit_length_numeral: "bit_length (numeral k) = 1 + bit_length (numeral k div 2)"
  by (simp add: bit_length.simps [of "numeral k"])

lemma bit_length_0_1: "bit_length 0 = 0" "bit_length 1 = 1"
  by (simp_all add: bit_length.simps [of 0] bit_length.simps [of 1])

lemmas round64_eval =
  round64_def binade_def pow2_def round_half_even_def Let_def bit_length_numeral
  bit_length_0_1

lemma round64_tie_to_even:
  "round64 (2 ^ 53 + 1) = Fin (2 ^ 53)" "round64 (2 ^ 53 + 3) = Fin (2 ^ 53 + 4)"
  by (simp_all add: round64_eval)

lemma js_add_absorbs: "js_add (Fin (2 ^ 53)) (Fin 1) = Fin (2 ^ 53)"
  by (simp add: round64_eval)

lemma round64_tenths:
  "round64 (1 / 10) = Fin (3602879701896397 / 2 ^ 55)"
  "round64 (3 / 10) = Fin (5404319552844595 / 2 ^ 54)"
  by (simp_all add: round64_eval)

lemma js_add_tenths:
  "js_add (Fin (3602879701896397 / 2 ^ 55)) (Fin (3602879701896397 / 2 ^ 54))
     = Fin (5404319552844596 / 2 ^ 54)"
  by (simp add: round64_eval)

lemma js_mul_overflow: "js_mul (Fin (2 ^ 1023)) (Fin 2) = PInf"
  by (simp add: round64_eval)

section \<open>The random order is a permutation\<close>

text \<open>
  Whatever the draws, \<open>shuffle\<close> gives the elements of the list back, each as often
  as it was there.
\<close>

lemma mset_remove_nth:
  assumes "i < length xs"
  shows "mset (xs ! i # take i xs @ drop (Suc i) xs) = mset xs"
proof -
  from assms have "xs = take i xs @ xs ! i # drop (Suc i) xs"
    by (rule id_take_nth_drop)
  then have "mset xs = mset (take i xs @ xs ! i # drop (Suc i) xs)"
    by simp
  then show ?thesis by simp
qed

lemma shuffle_permutes: "mset (shuffle rs xs) = mset xs"
proof (induction rs xs rule: shuffle.induct)
  case (3 r rs x xs)
  let ?ys = "x # xs"
  let ?i = "r mod length ?ys"
  have i: "?i < length ?ys" by simp
  have "mset (shuffle (r # rs) ?ys) = mset (?ys ! ?i # take ?i ?ys @ drop (Suc ?i) ?ys)"
    using "3.IH" [of ?i] by (simp add: Let_def del: nth_Cons_Suc take_Suc_Cons drop_Suc_Cons)
  also have "\<dots> = mset ?ys"
    using i by (rule mset_remove_nth)
  finally show ?case .
qed simp_all

text \<open>Every order of the list is the result of some draws.\<close>

lemma shuffle_reaches:
  assumes "mset ys = mset xs"
  shows "\<exists>rs. shuffle rs xs = ys"
  using assms
proof (induction ys arbitrary: xs)
  case Nil
  then show ?case by simp
next
  case (Cons y ys)
  from Cons.prems have "y \<in> set xs"
    by (metis list.set_intros(1) mset_eq_setD)
  then obtain i where i: "i < length xs" "xs ! i = y"
    by (auto simp: in_set_conv_nth)
  let ?rest = "take i xs @ drop (Suc i) xs"
  from i(1) have "mset (xs ! i # ?rest) = mset xs"
    by (rule mset_remove_nth)
  with Cons.prems i(2) have "add_mset y (mset ys) = add_mset y (mset ?rest)"
    by simp
  then have "mset ys = mset ?rest"
    by (simp only: add_mset_add_mset_same_iff)
  from Cons.IH [OF this] obtain rs where rs: "shuffle rs ?rest = ys" ..
  from i(1) obtain x xs' where xs: "xs = x # xs'"
    by (cases xs) auto
  have "shuffle (i # rs) (x # xs') =
          (x # xs') ! i # shuffle rs (take i (x # xs') @ drop (Suc i) (x # xs'))"
    using i(1) xs by (simp add: Let_def del: nth_Cons_Suc take_Suc_Cons drop_Suc_Cons)
  with rs i(2) xs have "shuffle (i # rs) xs = y # ys"
    by simp
  then show ?case ..
qed

section \<open>Evaluating the concrete session\<close>

lemma demo_filtered: "filteredQuestions defaultGameSettings demo_questions = demo_questions"
  by (simp add: filteredQuestions_def defaultGameSettings_def demo_questions_def demo_q1_def
      demo_q2_def)

lemma demo_shuffled: "shuffle [Suc 0] demo_questions = [demo_q2, demo_q1]"
  by (simp add: demo_questions_def)

lemma demo_lobby_eq:
  "demo_lobby =
     \<lparr>currentUser = Some demo_user, isAuthenticated = True, currentRoom = Some demo_room,
      availableRooms = [demo_room], currentQuestion = None, playerAnswers = [],
      gameSettings = defaultGameSettings, isLoading = False, error = None,
      showResults = False\<rparr>"
  by (simp add: demo_lobby_def createRoom_def setUser_def initial_store_def demo_room_def
      demo_user_def Let_def)

lemma demo_playing_eq:
  "demo_playing =
     \<lparr>currentUser = Some demo_user, isAuthenticated = True,
      currentRoom = Some (demo_room\<lparr>gameState := Playing, timeRemaining := 30\<rparr>),
      availableRooms = [demo_room], currentQuestion = Some demo_q2,
      playerAnswers = [], gameSettings = defaultGameSettings, isLoading = False,
      error = None, showResults = False\<rparr>"
proof -
  have "first_or_null (js_slice0 [demo_q2, demo_q1] (questionsPerGame defaultGameSettings))
          = Some demo_q2"
    by (simp add: js_slice0_def first_or_null_def defaultGameSettings_def)
  moreover have "timePerQuestion defaultGameSettings = 30"
    by (simp add: defaultGameSettings_def)
  ultimately show ?thesis
    by (simp add: demo_playing_def startGame_def demo_lobby_eq demo_filtered demo_shuffled
        Let_def demo_room_def)
qed

lemma demo_playing_parts:
  "currentUser demo_playing = Some demo_user"
  "currentQuestion demo_playing = Some demo_q2"
  "currentRoom demo_playing = Some (demo_room\<lparr>gameState := Playing, timeRemaining := 30\<rparr>)"
  "playerAnswers demo_playing = []"
  "gameSettings demo_playing = defaultGameSettings"
  "availableRooms demo_playing = [demo_room]"
  by (simp_all add: demo_playing_eq)

lemma demo_finished_eq:
  "demo_finished =
     \<lparr>currentUser = Some demo_user, isAuthenticated = True,
      currentRoom = Some (demo_room\<lparr>gameState := Finished, timeRemaining := 30\<rparr>),
      availableRooms = [demo_room], currentQuestion = None,
      playerAnswers = [], gameSettings = defaultGameSettings, isLoading = False,
      error = None, showResults = True\<rparr>"
  by (simp add: demo_finished_def endGame_def demo_playing_eq)

lemma demo_over_eq:
  "demo_over =
     \<lparr>currentUser = Some demo_user, isAuthenticated = True,
      currentRoom = Some (demo_room\<lparr>gameState := Finished, timeRemaining := 30\<rparr>),
      availableRooms = [demo_room], currentQuestion = None,
      playerAnswers = [], gameSettings = defaultGameSettings\<lparr>questionsPerGame := 1\<rparr>,
      isLoading = False, error = None, showResults = True\<rparr>"
  by (simp add: demo_over_def setGameSettings_def demo_finished_eq only_questionsPerGame_def
      Let_def)

lemma demo_medium_eq:
  "demo_medium =
     \<lparr>currentUser = Some demo_user, isAuthenticated = True, currentRoom = Some demo_room,
      availableRooms = [demo_room], currentQuestion = None, playerAnswers = [],
      gameSettings = defaultGameSettings\<lparr>difficulty := ''medium''\<rparr>, isLoading = False,
      error = None, showResults = False\<rparr>"
  by (simp add: demo_medium_def setGameSettings_def demo_lobby_eq only_difficulty_def Let_def)

lemma demo_medium_filtered:
  "filteredQuestions (gameSettings demo_medium) demo_questions = []"
  by (simp add: demo_medium_eq filteredQuestions_def defaultGameSettings_def
      demo_questions_def demo_q1_def demo_q2_def)

lemma demo_over_parts:
  "currentRoom demo_over = Some (demo_room\<lparr>gameState := Finished, timeRemaining := 30\<rparr>)"
  "currentQuestion demo_over = None"
  "showResults demo_over"
  "gameSettings demo_over = defaultGameSettings\<lparr>questionsPerGame := 1\<rparr>"
  by (simp_all add: demo_over_eq)

lemma demo_solo_eq:
  "demo_solo =
     \<lparr>currentUser = Some demo_user, isAuthenticated = True,
      currentRoom = Some (demo_room\<lparr>room_id := ''a1b2c3d4e'', room_name := ''solo'',
                                     maxPlayers := Fin 1\<rparr>),
      availableRooms = [demo_room\<lparr>room_id := ''a1b2c3d4e'', room_name := ''solo'',
                                   maxPlayers := Fin 1\<rparr>],
      currentQuestion = None, playerAnswers = [],
      gameSettings = defaultGameSettings, isLoading = False, error = None,
      showResults = False\<rparr>"
  by (simp add: demo_solo_def createRoom_def setUser_def initial_store_def demo_room_def
      demo_user_def Let_def)

lemma demo_cramped_eq:
  "demo_cramped =
     \<lparr>currentUser = Some demo_user, isAuthenticated = True,
      currentRoom = Some (demo_room\<lparr>maxPlayers := Fin 0\<rparr>),
      availableRooms = [demo_room\<lparr>maxPlayers := Fin 0\<rparr>],
      currentQuestion = None, playerAnswers = [],
      gameSettings = defaultGameSettings, isLoading = False, error = None,
      showResults = False\<rparr>"
  by (simp add: demo_cramped_def createRoom_def setUser_def initial_store_def demo_room_def
      demo_user_def Let_def)

lemma demo_half_eq:
  "demo_half =
     \<lparr>currentUser = Some demo_guest, isAuthenticated = True,
      currentRoom = Some (demo_room\<lparr>players := [demo_user, demo_guest],
                                     maxPlayers := Fin (3 / 2),
                                     scores := [''u1'' \<mapsto> JNum (Fin 0),
                                                ''u2'' \<mapsto> JNum (Fin 0)]\<rparr>),
      availableRooms = [demo_room\<lparr>players := [demo_user, demo_guest],
                                   maxPlayers := Fin (3 / 2),
                                   scores := [''u1'' \<mapsto> JNum (Fin 0),
                                              ''u2'' \<mapsto> JNum (Fin 0)]\<rparr>],
      currentQuestion = None, playerAnswers = [],
      gameSettings = defaultGameSettings, isLoading = False, error = None,
      showResults = False\<rparr>"
  by (simp add: demo_half_def joinRoom_def createRoom_def setUser_def initial_store_def
      demo_room_def demo_user_def demo_guest_def js_ge_def js_length_def Let_def)

lemma demo_rejoined_eq:
  "demo_rejoined =
     demo_lobby\<lparr>currentRoom := Some (demo_room\<lparr>players := [demo_user, demo_user]\<rparr>),
                availableRooms := [demo_room\<lparr>players := [demo_user, demo_user]\<rparr>]\<rparr>"
  by (simp add: demo_rejoined_def joinRoom_def demo_lobby_eq demo_room_def demo_user_def
      js_ge_def js_length_def Let_def)

lemma demo_guest_lobby_parts:
  "currentUser demo_guest_lobby = Some demo_guest"
  "currentRoom demo_guest_lobby = Some demo_room"
  "availableRooms demo_guest_lobby = [demo_room]"
  by (simp_all add: demo_guest_lobby_def setUser_def demo_lobby_eq)



section \<open>Scoring\<close>

text \<open>
  C1, as the code has it. With a user, an active question and an active room,
  \<^verbatim>\<open>submitAnswer\<close> appends one answer whose correctness flag is
  \<^verbatim>\<open>answerIndex === correctAnswer\<close> and whose points are the question's points plus
  \<^verbatim>\<open>Math.max(0, (30 - timeSpent) * 2)\<close> when correct and \<open>0\<close> when not. The window of
  30 seconds is fixed: the recorded answer is the same under any game settings. From 30
  seconds on the bonus is \<open>0\<close>. The time spent is taken as it is given: when it is not
  \<^verbatim>\<open>NaN\<close>, the points are at least \<open>0\<close> whenever the question's points are.
\<close>

theorem submitAnswer_scoring_amended:
  assumes "currentUser s = Some u" and "currentQuestion s = Some q"
    and "currentRoom s = Some room"
  shows "playerAnswers (submitAnswer a t s) =
           playerAnswers s @
             [\<lparr>playerId = user_id u, answerIndex = a, timeSpent = t,
               isCorrect = js_eq a (correctAnswer q),
               pa_points =
                 (if js_eq a (correctAnswer q)
                  then js_add (q_points q)
                         (js_max (Fin 0) (js_mul (js_sub (Fin 30) t) (Fin 2)))
                  else Fin 0)\<rparr>]
       \<and> playerAnswers (submitAnswer a t (s\<lparr>gameSettings := g\<rparr>)) =
           playerAnswers (submitAnswer a t s)
       \<and> (js_ge t (Fin 30) \<longrightarrow>
            js_max (Fin 0) (js_mul (js_sub (Fin 30) t) (Fin 2)) = Fin 0
            \<and> pa_points (last (playerAnswers (submitAnswer a t s))) =
                (if js_eq a (correctAnswer q) then js_add (q_points q) (Fin 0) else Fin 0))
       \<and> (t \<noteq> NaN \<and> js_ge (q_points q) (Fin 0) \<longrightarrow>
            js_ge (pa_points (last (playerAnswers (submitAnswer a t s)))) (Fin 0))"
proof -
  let ?bonus = "js_max (Fin 0) (js_mul (js_sub (Fin 30) t) (Fin 2))"
  let ?pts = "if js_eq a (correctAnswer q) then js_add (q_points q) ?bonus else Fin 0"
  have rec: "playerAnswers (submitAnswer a t s) =
           playerAnswers s @
             [\<lparr>playerId = user_id u, answerIndex = a, timeSpent = t,
               isCorrect = js_eq a (correctAnswer q), pa_points = ?pts\<rparr>]"
    and frame: "playerAnswers (submitAnswer a t (s\<lparr>gameSettings := g\<rparr>)) =
           playerAnswers (submitAnswer a t s)"
    using assms by (simp_all add: submitAnswer_def Let_def)
  have late: "?bonus = Fin 0" if "js_ge t (Fin 30)"
    using that
    by (intro js_max_zero_nonpos js_mul_2_nonpos js_sub_30_nonpos)
  have nonneg: "js_ge ?pts (Fin 0)" if "t \<noteq> NaN" and "js_ge (q_points q) (Fin 0)"
  proof -
    from that(1) have "js_le (Fin 0) ?bonus"
      by (intro js_max_zero_nonneg js_bonus_not_NaN)
    with that(2) show ?thesis
      by (simp add: js_ge_def js_add_nonneg)
  qed
  from rec frame late nonneg show ?thesis
    by simp
qed

theorem submitAnswer_scoring_amended_witness:
  "currentUser demo_playing = Some demo_user
   \<and> currentQuestion demo_playing = Some demo_q2
   \<and> currentRoom demo_playing =
        Some (demo_room\<lparr>gameState := Playing, timeRemaining := 30\<rparr>)
   \<and> js_ge (Fin 45) (Fin 30) \<and> Fin 45 \<noteq> NaN \<and> js_ge (q_points demo_q2) (Fin 0)
   \<and> playerAnswers (submitAnswer (Fin 2) (Fin 45) demo_playing) =
        [\<lparr>playerId = ''u1'', answerIndex = Fin 2, timeSpent = Fin 45, isCorrect = True,
          pa_points = Fin 100\<rparr>]
   \<and> js_ge (pa_points (last (playerAnswers (submitAnswer (Fin 2) (Fin 45) demo_playing))))
        (Fin 0)"
proof -
  have c: "correctAnswer demo_q2 = Fin 2" "q_points demo_q2 = Fin 100"
    "user_id demo_user = ''u1''" "js_eq (Fin 2) (Fin 2)" "js_ge (Fin 45) (Fin 30)"
    "js_ge (Fin 100) (Fin 0)"
    by (simp_all add: demo_q2_def demo_user_def js_eq_def js_ge_def)
  from submitAnswer_scoring_amended [OF demo_playing_parts(1-3), of "Fin 2" "Fin 45"
      defaultGameSettings]
  show ?thesis
    by (simp add: demo_playing_parts c round64_numeral round64_neg_numeral js_max_def
        js_ge_def)
qed

text \<open>
  C1 as stated fails for a time spent that is \<^verbatim>\<open>NaN\<close>: the bonus and the points of
  a correct answer are \<^verbatim>\<open>NaN\<close>, which is not at least \<open>0\<close>, although the question's
  points are.
\<close>

theorem submitAnswer_scoring_counterexample:
  "currentUser demo_playing = Some demo_user
   \<and> currentQuestion demo_playing = Some demo_q2
   \<and> js_ge (q_points demo_q2) (Fin 0)
   \<and> map pa_points (playerAnswers (submitAnswer (Fin 2) NaN demo_playing)) = [NaN]
   \<and> \<not> js_ge NaN (Fin 0)"
  by (simp add: submitAnswer_def demo_playing_parts demo_q2_def js_eq_def js_ge_def js_max_def
      Let_def)




section \<open>Room lifecycle\<close>

lemma phase_le_2: "phase g \<le> 2"
  by (cases g) simp_all

text \<open>
  C2, as the code has it. No action looks at \<open>gameState\<close> before it writes. Among the
  actions that keep the active room in its slot (all but \<^verbatim>\<open>createRoom\<close>,
  \<^verbatim>\<open>joinRoom\<close>, \<^verbatim>\<open>leaveRoom\<close> and \<^verbatim>\<open>logout\<close>), every one except
  \<^verbatim>\<open>startGame\<close> leaves the room where it is on the line waiting, playing,
  finished, or moves it forward. \<^verbatim>\<open>startGame\<close> sets \<open>Playing\<close> whatever the state
  was. \<^verbatim>\<open>nextQuestion\<close> on a finished room keeps it finished; it leaves the whole
  state as it was when, in addition, the next index reaches \<open>questionsPerGame\<close>, no
  question is active and the results are already shown.
\<close>

theorem lifecycle_amended:
  assumes "currentRoom s = Some room"
  shows "(\<not> switches_room a \<and> \<not> is_StartGame a \<longrightarrow>
            (\<exists>r'. currentRoom (perform mq a s) = Some r' \<and> room_id r' = room_id room
                  \<and> phase (gameState room) \<le> phase (gameState r')))
       \<and> (\<exists>r'. currentRoom (startGame mq rs s) = Some r' \<and> room_id r' = room_id room
                \<and> gameState r' = Playing)
       \<and> (gameState room = Finished \<longrightarrow>
            (\<exists>r'. currentRoom (nextQuestion mq rs s) = Some r' \<and> gameState r' = Finished))
       \<and> (gameState room = Finished
            \<and> questionsPerGame (gameSettings s) \<le> questionIndex room + 1
            \<and> currentQuestion s = None \<and> showResults s \<longrightarrow>
            nextQuestion mq rs s = s)"
proof -
  have 1: "\<not> switches_room a \<and> \<not> is_StartGame a \<longrightarrow>
            (\<exists>r'. currentRoom (perform mq a s) = Some r' \<and> room_id r' = room_id room
                  \<and> phase (gameState room) \<le> phase (gameState r'))"
    using assms
    by (cases a)
      (simp_all add: setUser_def submitAnswer_def nextQuestion_def endGame_def
        setGameSettings_def setError_def setLoading_def Let_def phase_le_2
        split: option.splits)
  have 2: "\<exists>r'. currentRoom (startGame mq rs s) = Some r' \<and> room_id r' = room_id room
                \<and> gameState r' = Playing"
    using assms by (simp add: startGame_def Let_def)
  have 3: "gameState room = Finished \<longrightarrow>
            (\<exists>r'. currentRoom (nextQuestion mq rs s) = Some r' \<and> gameState r' = Finished)"
    using assms by (simp add: nextQuestion_def endGame_def Let_def)
  have 4: "gameState room = Finished
            \<and> questionsPerGame (gameSettings s) \<le> questionIndex room + 1
            \<and> currentQuestion s = None \<and> showResults s \<longrightarrow>
            nextQuestion mq rs s = s"
    using assms by (auto simp add: nextQuestion_def endGame_def Let_def)
  from 1 2 3 4 show ?thesis by blast
qed

theorem lifecycle_amended_witness:
  "currentRoom demo_over = Some (demo_room\<lparr>gameState := Finished, timeRemaining := 30\<rparr>)
   \<and> \<not> switches_room (SubmitAnswer (Fin 2) (Fin 10)) \<and> \<not> is_StartGame (SubmitAnswer (Fin 2) (Fin 10))
   \<and> questionsPerGame (gameSettings demo_over) \<le> questionIndex demo_room + 1
   \<and> currentQuestion demo_over = None \<and> showResults demo_over
   \<and> perform demo_questions (SubmitAnswer (Fin 2) (Fin 10)) demo_over = demo_over
   \<and> phase (gameState (demo_room\<lparr>gameState := Finished, timeRemaining := 30\<rparr>)) \<le> 2
   \<and> map_option gameState (currentRoom (startGame demo_questions [Suc 0] demo_over))
        = Some Playing
   \<and> nextQuestion demo_questions [Suc 0] demo_over = demo_over"
proof -
  have f: "gameState (demo_room\<lparr>gameState := Finished, timeRemaining := 30\<rparr>) = Finished"
    "questionIndex (demo_room\<lparr>gameState := Finished, timeRemaining := 30\<rparr>) = 0"
    "questionIndex demo_room = 0"
    by (simp_all add: demo_room_def)
  have q: "questionsPerGame (gameSettings demo_over) = 1"
    by (simp add: demo_over_parts)
  have n: "perform demo_questions (SubmitAnswer (Fin 2) (Fin 10)) demo_over = demo_over"
    by (simp add: submitAnswer_def demo_over_eq)
  from lifecycle_amended [OF demo_over_parts(1), of "SubmitAnswer (Fin 2) (Fin 10)" demo_questions
      "[Suc 0]"]
  show ?thesis
    using f q n demo_over_parts by auto
qed

text \<open>
  C2 as stated fails on a reachable state. After login, \<^verbatim>\<open>createRoom\<close>,
  \<^verbatim>\<open>startGame\<close> and \<^verbatim>\<open>endGame\<close> the room is finished;
  \<^verbatim>\<open>startGame\<close> then puts it back to playing, \<^verbatim>\<open>nextQuestion\<close> moves its
  question index from \<open>0\<close> to \<open>1\<close>, and \<^verbatim>\<open>joinRoom\<close> with the room's own id
  installs the copy kept in the lobby, which is still waiting.
\<close>

theorem lifecycle_counterexample:
  "run demo_questions
      [SetUser demo_user, CreateRoom ''sala'' (Fin 4) False ''k3x9q2m1z'', StartGame [Suc 0], EndGame]
      initial_store = demo_finished
   \<and> map_option gameState (currentRoom demo_finished) = Some Finished
   \<and> map_option gameState (currentRoom (startGame demo_questions [Suc 0] demo_finished))
        = Some Playing
   \<and> map_option questionIndex (currentRoom demo_finished) = Some 0
   \<and> map_option questionIndex (currentRoom (nextQuestion demo_questions [Suc 0] demo_finished))
        = Some 1
   \<and> map_option room_id (currentRoom demo_finished) = Some ''k3x9q2m1z''
   \<and> map_option gameState (currentRoom (joinRoom ''k3x9q2m1z'' demo_finished))
        = Some Waiting"
proof -
  have "run demo_questions
      [SetUser demo_user, CreateRoom ''sala'' (Fin 4) False ''k3x9q2m1z'', StartGame [Suc 0], EndGame]
      initial_store = demo_finished"
    by (simp add: demo_finished_def demo_playing_def demo_lobby_def)
  moreover have "currentRoom demo_finished =
      Some (demo_room\<lparr>gameState := Finished, timeRemaining := 30\<rparr>)"
    "gameSettings demo_finished = defaultGameSettings"
    "currentUser demo_finished = Some demo_user"
    "availableRooms demo_finished = [demo_room]"
    by (simp_all add: demo_finished_eq)
  moreover have "questionsPerGame defaultGameSettings = 10"
    by (simp add: defaultGameSettings_def)
  ultimately show ?thesis
    by (simp add: startGame_def nextQuestion_def joinRoom_def Let_def demo_room_def
        js_ge_def js_length_def)
qed

lemma nextQuestion_advance:
  assumes "currentRoom s = Some room"
    and "questionIndex room + 1 < questionsPerGame (gameSettings s)"
  shows "currentRoom (nextQuestion mq rs s) =
           Some (room\<lparr>questionIndex := questionIndex room + 1,
                       timeRemaining := timePerQuestion (gameSettings s)\<rparr>)"
    and "gameSettings (nextQuestion mq rs s) = gameSettings s"
  using assms by (simp_all add: nextQuestion_def Let_def)

lemma nextQuestion_finish:
  assumes "currentRoom s = Some room"
    and "questionsPerGame (gameSettings s) \<le> questionIndex room + 1"
  shows "nextQuestion mq rs s = endGame s"
  using assms by (simp add: nextQuestion_def Let_def)

lemma nextQuestions_advance:
  assumes "currentRoom s = Some room"
    and "questionIndex room + int (length rss) < questionsPerGame (gameSettings s)"
  shows "\<exists>r'. currentRoom (nextQuestions mq rss s) = Some r'
            \<and> questionIndex r' = questionIndex room + int (length rss)
            \<and> gameState r' = gameState room
            \<and> gameSettings (nextQuestions mq rss s) = gameSettings s"
  using assms
proof (induction rss arbitrary: s room)
  case Nil
  then show ?case by simp
next
  case (Cons rs rss)
  let ?s = "nextQuestion mq rs s"
  let ?r = "room\<lparr>questionIndex := questionIndex room + 1,
                   timeRemaining := timePerQuestion (gameSettings s)\<rparr>"
  from Cons.prems have lt: "questionIndex room + 1 < questionsPerGame (gameSettings s)"
    by simp
  have r: "currentRoom ?s = Some ?r" and g: "gameSettings ?s = gameSettings s"
    using nextQuestion_advance [OF Cons.prems(1) lt] by simp_all
  have "questionIndex ?r + int (length rss) < questionsPerGame (gameSettings ?s)"
    using Cons.prems(2) g by simp
  from Cons.IH [OF r this] g show ?case by (auto simp: algebra_simps)
qed

text \<open>
  C4. With \<open>questionsPerGame = 10\<close> and the active room playing at question index \<open>0\<close>:
  after \<open>k \<le> 9\<close> calls of \<^verbatim>\<open>nextQuestion\<close> the index is \<open>k\<close> and the room is
  still playing, whatever the random draws; the tenth call finishes the room, leaves the
  index at \<open>9\<close> and clears the active question.
\<close>

theorem terminal_advance:
  assumes "questionsPerGame (gameSettings s) = 10" and "currentRoom s = Some room"
    and "questionIndex room = 0" and "gameState room = Playing"
    and "length rss = 9" and "k \<le> 9"
  shows "(\<exists>r'. currentRoom (nextQuestions mq (take k rss) s) = Some r'
             \<and> questionIndex r' = int k \<and> gameState r' = Playing)
       \<and> (\<exists>r'. currentRoom (nextQuestion mq rs (nextQuestions mq rss s)) = Some r'
             \<and> questionIndex r' = 9 \<and> gameState r' = Finished)
       \<and> currentQuestion (nextQuestion mq rs (nextQuestions mq rss s)) = None"
proof -
  have "questionIndex room + int (length (take k rss)) < questionsPerGame (gameSettings s)"
    using assms by simp
  from nextQuestions_advance [OF assms(2) this, of mq]
  have first: "\<exists>r'. currentRoom (nextQuestions mq (take k rss) s) = Some r'
             \<and> questionIndex r' = int k \<and> gameState r' = Playing"
    using assms by auto
  have "questionIndex room + int (length rss) < questionsPerGame (gameSettings s)"
    using assms by simp
  from nextQuestions_advance [OF assms(2) this, of mq]
  obtain r9 where r9: "currentRoom (nextQuestions mq rss s) = Some r9"
    "questionIndex r9 = 9" "gameState r9 = Playing"
    "gameSettings (nextQuestions mq rss s) = gameSettings s"
    using assms by auto
  have "questionsPerGame (gameSettings (nextQuestions mq rss s)) \<le> questionIndex r9 + 1"
    using r9 assms(1) by simp
  from nextQuestion_finish [OF r9(1) this]
  have "nextQuestion mq rs (nextQuestions mq rss s) = endGame (nextQuestions mq rss s)" .
  then have last: "(\<exists>r'. currentRoom (nextQuestion mq rs (nextQuestions mq rss s)) = Some r'
             \<and> questionIndex r' = 9 \<and> gameState r' = Finished)
       \<and> currentQuestion (nextQuestion mq rs (nextQuestions mq rss s)) = None"
    using r9 by (simp add: endGame_def)
  from first last show ?thesis by simp
qed

theorem terminal_advance_witness:
  "questionsPerGame (gameSettings demo_playing) = 10
   \<and> currentRoom demo_playing =
        Some (demo_room\<lparr>gameState := Playing, timeRemaining := 30\<rparr>)
   \<and> map_option questionIndex
        (currentRoom (nextQuestions demo_questions (take 9 (replicate 9 [Suc 0])) demo_playing))
        = Some 9
   \<and> map_option gameState
        (currentRoom (nextQuestions demo_questions (take 9 (replicate 9 [Suc 0])) demo_playing))
        = Some Playing
   \<and> map_option questionIndex
        (currentRoom (nextQuestion demo_questions [Suc 0]
           (nextQuestions demo_questions (replicate 9 [Suc 0]) demo_playing))) = Some 9
   \<and> map_option gameState
        (currentRoom (nextQuestion demo_questions [Suc 0]
           (nextQuestions demo_questions (replicate 9 [Suc 0]) demo_playing))) = Some Finished
   \<and> currentQuestion (nextQuestion demo_questions [Suc 0]
           (nextQuestions demo_questions (replicate 9 [Suc 0]) demo_playing)) = None"
proof -
  have q: "questionsPerGame (gameSettings demo_playing) = 10"
    by (simp add: demo_playing_parts defaultGameSettings_def)
  have i: "questionIndex (demo_room\<lparr>gameState := Playing, timeRemaining := 30\<rparr>) = 0"
    and g: "gameState (demo_room\<lparr>gameState := Playing, timeRemaining := 30\<rparr>) = Playing"
    by (simp_all add: demo_room_def)
  have l: "length (replicate 9 [Suc 0]) = 9" and k: "(9::nat) \<le> 9"
    by simp_all
  from terminal_advance [OF q demo_playing_parts(3) i g l k, of demo_questions "[Suc 0]"]
  show ?thesis
    using q demo_playing_parts(3) by (simp only: take_all l) auto
qed

text \<open>
  C6. When no question of the catalogue passes the filter of the settings,
  \<^verbatim>\<open>startGame\<close> still puts the active room into \<open>Playing\<close>, with no current
  question, and \<^verbatim>\<open>nextQuestion\<close> below the last index still advances the index, with
  no current question. Both are total functions of the state: no branch of either raises.
\<close>

theorem empty_pool_tolerated:
  assumes "filteredQuestions (gameSettings s) mq = []" and "currentRoom s = Some room"
  shows "startGame mq rs s =
           s\<lparr>currentRoom := Some (room\<lparr>gameState := Playing, questionIndex := 0,
                                        timeRemaining := timePerQuestion (gameSettings s)\<rparr>),
             currentQuestion := None, playerAnswers := []\<rparr>
       \<and> (questionIndex room + 1 < questionsPerGame (gameSettings s) \<longrightarrow>
            nextQuestion mq rs s =
              s\<lparr>currentRoom := Some (room\<lparr>questionIndex := questionIndex room + 1,
                                           timeRemaining := timePerQuestion (gameSettings s)\<rparr>),
                currentQuestion := None, showResults := False\<rparr>)"
  using assms
  by (simp add: startGame_def nextQuestion_def js_slice0_def first_or_null_def
      at_index_mod_def Let_def)

theorem empty_pool_tolerated_witness:
  "filteredQuestions (gameSettings demo_medium) demo_questions = []
   \<and> currentRoom demo_medium = Some demo_room
   \<and> questionIndex demo_room + 1 < questionsPerGame (gameSettings demo_medium)
   \<and> currentRoom (startGame demo_questions [Suc 0] demo_medium) =
        Some (demo_room\<lparr>gameState := Playing, questionIndex := 0, timeRemaining := 30\<rparr>)
   \<and> currentQuestion (startGame demo_questions [Suc 0] demo_medium) = None
   \<and> currentRoom (nextQuestion demo_questions [Suc 0] demo_medium) =
        Some (demo_room\<lparr>questionIndex := 1, timeRemaining := 30\<rparr>)
   \<and> currentQuestion (nextQuestion demo_questions [Suc 0] demo_medium) = None"
proof -
  have r: "currentRoom demo_medium = Some demo_room"
    by (simp add: demo_medium_eq)
  have i: "questionIndex demo_room + 1 < questionsPerGame (gameSettings demo_medium)"
    "questionIndex demo_room = 0" "timePerQuestion (gameSettings demo_medium) = 30"
    by (simp_all add: demo_medium_eq demo_room_def defaultGameSettings_def)
  from empty_pool_tolerated [OF demo_medium_filtered r, of "[Suc 0]"] i
  have "startGame demo_questions [Suc 0] demo_medium =
          demo_medium\<lparr>currentRoom := Some (demo_room\<lparr>gameState := Playing,
                         questionIndex := 0, timeRemaining := 30\<rparr>),
            currentQuestion := None, playerAnswers := []\<rparr>"
    and "nextQuestion demo_questions [Suc 0] demo_medium =
          demo_medium\<lparr>currentRoom := Some (demo_room\<lparr>questionIndex := 1,
                         timeRemaining := 30\<rparr>),
            currentQuestion := None, showResults := False\<rparr>"
    by simp_all
  with demo_medium_filtered r i(1) show ?thesis by simp
qed

section \<open>Rooms and their players\<close>

lemma list_all_within_map:
  assumes "list_all P rooms" and "P r"
  shows "list_all P (map (\<lambda>x. if room_id x = i then r else x) rooms)"
  using assms by (induction rooms) simp_all

lemma find_list_all:
  assumes "list_all P rooms" and "find Q rooms = Some r"
  shows "P r"
  using assms by (induction rooms) (auto split: if_splits)

lemma joinRoom_full:
  assumes "find (\<lambda>r. room_id r = i) (availableRooms s) = Some room"
    and "js_ge (js_length (players room)) (maxPlayers room)"
  shows "joinRoom i s = s"
  using assms by (simp add: joinRoom_def split: option.splits)

lemma joinRoom_joined:
  assumes "currentUser s = Some u"
    and "find (\<lambda>r. room_id r = i) (availableRooms s) = Some room"
    and "\<not> js_ge (js_length (players room)) (maxPlayers room)"
    and "r = room\<lparr>players := players room @ [u],
                   scores := (scores room)(user_id u \<mapsto> JNum (Fin 0))\<rparr>"
  shows "currentRoom (joinRoom i s) = Some r"
    and "availableRooms (joinRoom i s) =
           map (\<lambda>x. if room_id x = i then r else x) (availableRooms s)"
  using assms by (simp_all add: joinRoom_def Let_def)

lemma joinRoom_capacity:
  assumes "all_rooms within_capacity s"
  shows "all_rooms within_capacity (joinRoom i s) \<longleftrightarrow>
           \<not> (\<exists>u room. currentUser s = Some u
                 \<and> find (\<lambda>r. room_id r = i) (availableRooms s) = Some room
                 \<and> \<not> js_ge (js_length (players room)) (maxPlayers room)
                 \<and> \<not> js_le (Fin (real (length (players room)) + 1)) (maxPlayers room))"
proof (cases "currentUser s")
  case None
  with assms show ?thesis by (simp add: joinRoom_def)
next
  case (Some u)
  show ?thesis
  proof (cases "find (\<lambda>r. room_id r = i) (availableRooms s)")
    case None
    with assms Some show ?thesis by (simp add: joinRoom_def)
  next
    case found: (Some room)
    from assms have all: "list_all within_capacity (availableRooms s)"
      by (simp add: all_rooms_def)
    show ?thesis
    proof (cases "js_ge (js_length (players room)) (maxPlayers room)")
      case True
      with assms Some found joinRoom_full [OF found True] show ?thesis by simp
    next
      case False
      let ?r = "room\<lparr>players := players room @ [u],
                    scores := (scores room)(user_id u \<mapsto> JNum (Fin 0))\<rparr>"
      note joined = joinRoom_joined [OF Some found False refl]
      have cap: "within_capacity ?r \<longleftrightarrow>
                   js_le (Fin (real (length (players room)) + 1)) (maxPlayers room)"
        by (simp add: within_capacity_def js_length_def add.commute)
      show ?thesis
      proof (cases "js_le (Fin (real (length (players room)) + 1)) (maxPlayers room)")
        case True
        with cap have "within_capacity ?r" by simp
        with list_all_within_map [OF all this] joined
        have "all_rooms within_capacity (joinRoom i s)"
          by (simp add: all_rooms_def)
        with True Some found show ?thesis by auto
      next
        case over: False
        with cap joined(1) have "\<not> all_rooms within_capacity (joinRoom i s)"
          by (simp add: all_rooms_def)
        with over Some found False show ?thesis by auto
      qed
    qed
  qed
qed

lemma joinRoom_capacity_integer:
  assumes "all_rooms within_capacity s"
    and "find (\<lambda>r. room_id r = i) (availableRooms s) = Some room"
    and "maxPlayers room = Fin (of_int k)"
  shows "all_rooms within_capacity (joinRoom i s)"
proof -
  have "js_le (Fin (real (length (players room)) + 1)) (maxPlayers room)"
    if "\<not> js_ge (js_length (players room)) (maxPlayers room)"
  proof -
    from that assms(3) have "int (length (players room)) < k"
      by (simp add: js_ge_def js_length_def)
    then have "int (length (players room)) + 1 \<le> k" by simp
    then have "real_of_int (int (length (players room)) + 1) \<le> real_of_int k"
      by (simp only: of_int_le_iff)
    with assms(3) show ?thesis by simp
  qed
  with assms(2) show ?thesis
    unfolding joinRoom_capacity [OF assms(1)] by auto
qed

lemma createRoom_capacity:
  assumes "all_rooms within_capacity s"
  shows "all_rooms within_capacity (createRoom n m p rid s)
           \<longleftrightarrow> currentUser s = None \<or> js_le (Fin 1) m"
  using assms
  by (cases "currentUser s")
    (auto simp add: createRoom_def all_rooms_def within_capacity_def js_length_def Let_def)

text \<open>
  C3, as the code has it. \<^verbatim>\<open>createRoom\<close> stores \<open>maxPlayers\<close> as it is given, any
  number, and \<^verbatim>\<open>joinRoom\<close> compares the count of players with it. Every action
  other than \<^verbatim>\<open>createRoom\<close> and \<^verbatim>\<open>joinRoom\<close> keeps
  \<open>players.length \<le> maxPlayers\<close> for the active room and every room of the lobby.
  \<^verbatim>\<open>createRoom\<close> seeds the room with its creator, so it keeps the invariant exactly
  when there is no user (nothing happens) or \<open>maxPlayers \<ge> 1\<close>. \<^verbatim>\<open>joinRoom\<close> on a
  room with \<open>players.length \<ge> maxPlayers\<close> leaves the whole state as it was; it keeps the
  invariant exactly unless it adds a player to a room whose cap is less than the new
  count, and so always when the cap of the room is an integer.
\<close>

theorem capacity_amended:
  assumes "all_rooms within_capacity s"
  shows "(\<not> is_CreateRoom a \<and> \<not> is_JoinRoom a \<longrightarrow>
            all_rooms within_capacity (perform mq a s))
       \<and> (all_rooms within_capacity (createRoom n m p rid s)
            \<longleftrightarrow> currentUser s = None \<or> js_le (Fin 1) m)
       \<and> (\<forall>room. find (\<lambda>r. room_id r = i) (availableRooms s) = Some room
              \<and> js_ge (js_length (players room)) (maxPlayers room) \<longrightarrow> joinRoom i s = s)
       \<and> (all_rooms within_capacity (joinRoom i s) \<longleftrightarrow>
            \<not> (\<exists>u room. currentUser s = Some u
                  \<and> find (\<lambda>r. room_id r = i) (availableRooms s) = Some room
                  \<and> \<not> js_ge (js_length (players room)) (maxPlayers room)
                  \<and> \<not> js_le (Fin (real (length (players room)) + 1)) (maxPlayers room)))
       \<and> (\<forall>room k. find (\<lambda>r. room_id r = i) (availableRooms s) = Some room
              \<and> maxPlayers room = Fin (of_int k) \<longrightarrow>
              all_rooms within_capacity (joinRoom i s))"
proof -
  have "\<not> is_CreateRoom a \<and> \<not> is_JoinRoom a \<longrightarrow> all_rooms within_capacity (perform mq a s)"
    using assms
    by (cases a)
      (simp_all add: all_rooms_def within_capacity_def setUser_def logout_def
        leaveRoom_def startGame_def submitAnswer_def nextQuestion_def endGame_def
        setGameSettings_def setError_def setLoading_def Let_def split: option.splits)
  with createRoom_capacity [OF assms] joinRoom_full joinRoom_capacity [OF assms]
    joinRoom_capacity_integer [OF assms]
  show ?thesis by blast
qed

theorem capacity_amended_witness:
  "all_rooms within_capacity demo_solo
   \<and> \<not> is_CreateRoom EndGame \<and> \<not> is_JoinRoom EndGame
   \<and> find (\<lambda>r. room_id r = ''a1b2c3d4e'') (availableRooms demo_solo) =
        Some (demo_room\<lparr>room_id := ''a1b2c3d4e'', room_name := ''solo'',
                        maxPlayers := Fin 1\<rparr>)
   \<and> js_ge (js_length [demo_user]) (Fin 1)
   \<and> js_le (Fin 1) (Fin 4)
   \<and> all_rooms within_capacity (perform demo_questions EndGame demo_solo)
   \<and> all_rooms within_capacity (createRoom ''sala'' (Fin 4) False ''k3x9q2m1z'' demo_solo)
   \<and> joinRoom ''a1b2c3d4e'' demo_solo = demo_solo
   \<and> all_rooms within_capacity (joinRoom ''a1b2c3d4e'' demo_solo)"
proof -
  let ?r = "demo_room\<lparr>room_id := ''a1b2c3d4e'', room_name := ''solo'', maxPlayers := Fin 1\<rparr>"
  have inv: "all_rooms within_capacity demo_solo"
    by (simp add: demo_solo_eq all_rooms_def within_capacity_def js_length_def demo_room_def)
  have found: "find (\<lambda>r. room_id r = ''a1b2c3d4e'') (availableRooms demo_solo) = Some ?r"
    by (simp add: demo_solo_eq)
  have full: "js_ge (js_length (players ?r)) (maxPlayers ?r)"
    "js_ge (js_length [demo_user]) (Fin 1)" "js_le (Fin 1) (Fin 4)"
    "maxPlayers ?r = Fin (of_int 1)"
    by (simp_all add: demo_room_def js_ge_def js_length_def)
  from capacity_amended [OF inv, of EndGame demo_questions
      "''sala''" "Fin 4" False "''k3x9q2m1z''" "''a1b2c3d4e''"]
  show ?thesis
    using inv found full by auto
qed

text \<open>
  C3 as stated fails for \<open>maxPlayers = 0\<close>: the new room holds its creator, one player
  more than it admits. It also fails for \<^verbatim>\<open>joinRoom\<close> on a room created with
  \<open>maxPlayers = 1.5\<close>: one player is fewer than the cap, so the second user is added,
  and two players are more than the cap.
\<close>

theorem capacity_counterexample:
  "all_rooms within_capacity (setUser demo_user initial_store)
   \<and> \<not> all_rooms within_capacity
         (createRoom ''sala'' (Fin 0) False ''k3x9q2m1z'' (setUser demo_user initial_store))
   \<and> all_rooms within_capacity
         (setUser demo_guest
            (createRoom ''sala'' (Fin (3 / 2)) False ''k3x9q2m1z''
               (setUser demo_user initial_store)))
   \<and> map_option (\<lambda>r. length (players r)) (currentRoom demo_half) = Some 2
   \<and> \<not> all_rooms within_capacity demo_half"
proof -
  have "all_rooms within_capacity (setUser demo_user initial_store)"
    by (simp add: setUser_def initial_store_def all_rooms_def)
  moreover have "\<not> all_rooms within_capacity demo_cramped"
    by (simp add: demo_cramped_eq all_rooms_def within_capacity_def js_length_def
        demo_room_def)
  moreover have "all_rooms within_capacity
         (setUser demo_guest
            (createRoom ''sala'' (Fin (3 / 2)) False ''k3x9q2m1z''
               (setUser demo_user initial_store)))"
    by (simp add: setUser_def createRoom_def initial_store_def all_rooms_def
        within_capacity_def js_length_def Let_def)
  moreover have "map_option (\<lambda>r. length (players r)) (currentRoom demo_half) = Some 2"
    "\<not> all_rooms within_capacity demo_half"
    by (simp_all add: demo_half_eq all_rooms_def within_capacity_def js_length_def)
  ultimately show ?thesis
    by (simp add: demo_cramped_def)
qed

lemma joinRoom_unique:
  assumes "all_rooms unique_ids s"
  shows "all_rooms unique_ids (joinRoom i s) \<longleftrightarrow>
           \<not> (\<exists>u room. currentUser s = Some u
                 \<and> find (\<lambda>r. room_id r = i) (availableRooms s) = Some room
                 \<and> \<not> js_ge (js_length (players room)) (maxPlayers room)
                 \<and> user_id u \<in> set (map user_id (players room)))"
proof (cases "currentUser s")
  case None
  with assms show ?thesis by (simp add: joinRoom_def)
next
  case (Some u)
  show ?thesis
  proof (cases "find (\<lambda>r. room_id r = i) (availableRooms s)")
    case None
    with assms Some show ?thesis by (simp add: joinRoom_def)
  next
    case found: (Some room)
    from assms have all: "list_all unique_ids (availableRooms s)"
      by (simp add: all_rooms_def)
    from find_list_all [OF all found] have room: "unique_ids room" .
    show ?thesis
    proof (cases "js_ge (js_length (players room)) (maxPlayers room)")
      case True
      with assms Some found joinRoom_full [OF found True] show ?thesis by simp
    next
      case False
      let ?r = "room\<lparr>players := players room @ [u],
                    scores := (scores room)(user_id u \<mapsto> JNum (Fin 0))\<rparr>"
      have cur: "currentRoom (joinRoom i s) = Some ?r"
        and av: "availableRooms (joinRoom i s) =
                   map (\<lambda>x. if room_id x = i then ?r else x) (availableRooms s)"
        using Some found False by (simp_all add: joinRoom_def Let_def)
      have u: "unique_ids ?r \<longleftrightarrow> user_id u \<notin> set (map user_id (players room))"
        using room by (simp add: unique_ids_def)
      show ?thesis
      proof (cases "user_id u \<in> set (map user_id (players room))")
        case True
        with u cur have "\<not> all_rooms unique_ids (joinRoom i s)"
          by (simp add: all_rooms_def)
        with True Some found False show ?thesis by auto
      next
        case notin: False
        with u have "unique_ids ?r" by simp
        with list_all_within_map [OF all this] cur av
        have "all_rooms unique_ids (joinRoom i s)"
          by (simp add: all_rooms_def)
        with notin Some found show ?thesis by auto
      qed
    qed
  qed
qed

text \<open>
  C7, as the code has it. \<^verbatim>\<open>joinRoom\<close> does not look for the caller among the
  players of the room. Every action other than \<^verbatim>\<open>joinRoom\<close> keeps the user ids of
  each room distinct; \<^verbatim>\<open>joinRoom\<close> keeps them distinct exactly when it does not
  append a caller whose id the room already has, that is, unless there is a user, the
  room is found and not full, and the user's id is among its players.
\<close>

theorem unique_ids_amended:
  assumes "all_rooms unique_ids s"
  shows "(\<not> is_JoinRoom a \<longrightarrow> all_rooms unique_ids (perform mq a s))
       \<and> (all_rooms unique_ids (joinRoom i s) \<longleftrightarrow>
            \<not> (\<exists>u room. currentUser s = Some u
                  \<and> find (\<lambda>r. room_id r = i) (availableRooms s) = Some room
                  \<and> \<not> js_ge (js_length (players room)) (maxPlayers room)
                  \<and> user_id u \<in> set (map user_id (players room))))"
proof -
  have "\<not> is_JoinRoom a \<longrightarrow> all_rooms unique_ids (perform mq a s)"
    using assms
    by (cases a)
      (simp_all add: all_rooms_def unique_ids_def setUser_def logout_def createRoom_def
        leaveRoom_def startGame_def submitAnswer_def nextQuestion_def endGame_def
        setGameSettings_def setError_def setLoading_def Let_def split: option.splits)
  with joinRoom_unique [OF assms] show ?thesis by blast
qed

theorem unique_ids_amended_witness:
  "all_rooms unique_ids demo_guest_lobby
   \<and> \<not> is_JoinRoom (StartGame [Suc 0])
   \<and> all_rooms unique_ids (perform demo_questions (StartGame [Suc 0]) demo_guest_lobby)
   \<and> all_rooms unique_ids (joinRoom ''k3x9q2m1z'' demo_guest_lobby)"
proof -
  have inv: "all_rooms unique_ids demo_guest_lobby"
    by (simp add: all_rooms_def unique_ids_def demo_guest_lobby_parts demo_room_def)
  have new: "\<not> (\<exists>u room. currentUser demo_guest_lobby = Some u
                  \<and> find (\<lambda>r. room_id r = ''k3x9q2m1z'') (availableRooms demo_guest_lobby)
                      = Some room
                  \<and> \<not> js_ge (js_length (players room)) (maxPlayers room)
                  \<and> user_id u \<in> set (map user_id (players room)))"
    by (simp add: demo_guest_lobby_parts demo_room_def demo_user_def demo_guest_def
        js_ge_def js_length_def)
  from unique_ids_amended [OF inv, of "StartGame [Suc 0]" demo_questions "''k3x9q2m1z''"]
  show ?thesis
    using inv new by simp
qed

text \<open>
  C7 as stated fails when the creator of a room joins it: the room then lists the same
  user id twice, in the active slot and in the lobby.
\<close>

theorem unique_ids_counterexample:
  "all_rooms unique_ids demo_lobby
   \<and> map_option (\<lambda>r. map user_id (players r))
        (currentRoom (joinRoom ''k3x9q2m1z'' demo_lobby)) = Some [''u1'', ''u1'']
   \<and> \<not> all_rooms unique_ids (joinRoom ''k3x9q2m1z'' demo_lobby)"
proof -
  have "all_rooms unique_ids demo_lobby"
    by (simp add: all_rooms_def unique_ids_def demo_lobby_eq demo_room_def)
  moreover have "currentRoom demo_rejoined =
      Some (demo_room\<lparr>players := [demo_user, demo_user]\<rparr>)"
    by (simp add: demo_rejoined_eq)
  ultimately show ?thesis
    by (simp add: demo_rejoined_def [symmetric] all_rooms_def unique_ids_def demo_user_def)
qed

section \<open>Missing prerequisites and frames\<close>

text \<open>
  C5. An action whose prerequisite is absent gives the state back as it was:
  \<^verbatim>\<open>createRoom\<close> and \<^verbatim>\<open>joinRoom\<close> without a user, \<^verbatim>\<open>joinRoom\<close> when no
  room of the lobby has the id, \<^verbatim>\<open>submitAnswer\<close> without a user, an active question
  or an active room, and \<^verbatim>\<open>startGame\<close>, \<^verbatim>\<open>nextQuestion\<close> and
  \<^verbatim>\<open>endGame\<close> without an active room. The actions have no error result.
\<close>

theorem missing_prerequisite_noop:
  "(currentUser s = None \<longrightarrow>
      createRoom n m p rid s = s \<and> joinRoom i s = s \<and> submitAnswer a t s = s)
   \<and> (find (\<lambda>r. room_id r = i) (availableRooms s) = None \<longrightarrow> joinRoom i s = s)
   \<and> (currentQuestion s = None \<longrightarrow> submitAnswer a t s = s)
   \<and> (currentRoom s = None \<longrightarrow>
        submitAnswer a t s = s \<and> startGame mq rs s = s \<and> nextQuestion mq rs s = s
        \<and> endGame s = s)"
  by (simp add: createRoom_def joinRoom_def submitAnswer_def startGame_def nextQuestion_def
      endGame_def split: option.splits)

theorem missing_prerequisite_noop_witness:
  "currentUser initial_store = None
   \<and> find (\<lambda>r. room_id r = ''k3x9q2m1z'') (availableRooms initial_store) = None
   \<and> currentQuestion initial_store = None
   \<and> currentRoom initial_store = None
   \<and> createRoom ''sala'' (Fin 4) False ''k3x9q2m1z'' initial_store = initial_store
   \<and> joinRoom ''k3x9q2m1z'' initial_store = initial_store
   \<and> submitAnswer (Fin 2) (Fin 10) initial_store = initial_store
   \<and> startGame demo_questions [Suc 0] initial_store = initial_store
   \<and> nextQuestion demo_questions [Suc 0] initial_store = initial_store
   \<and> endGame initial_store = initial_store"
proof -
  have h: "currentUser initial_store = None"
    "find (\<lambda>r. room_id r = ''k3x9q2m1z'') (availableRooms initial_store) = None"
    "currentQuestion initial_store = None" "currentRoom initial_store = None"
    by (simp_all add: initial_store_def)
  from missing_prerequisite_noop [of initial_store "''sala''" "Fin 4" False "''k3x9q2m1z''"
      "''k3x9q2m1z''" "Fin 2" "Fin 10" demo_questions "[Suc 0]"] h
  show ?thesis by simp
qed

text \<open>
  C8. \<^verbatim>\<open>setGameSettings\<close> changes nothing of the state but the settings; a field of
  the settings takes the value of the argument when the argument has the key, and keeps
  its value when it has not.
\<close>

theorem setGameSettings_merge:
  "setGameSettings p s = s\<lparr>gameSettings := gameSettings (setGameSettings p s)\<rparr>
   \<and> (\<forall>v. p_questionsPerGame p = Some v \<longrightarrow>
          questionsPerGame (gameSettings (setGameSettings p s)) = v)
   \<and> (p_questionsPerGame p = None \<longrightarrow>
        questionsPerGame (gameSettings (setGameSettings p s)) = questionsPerGame (gameSettings s))
   \<and> (\<forall>v. p_timePerQuestion p = Some v \<longrightarrow>
          timePerQuestion (gameSettings (setGameSettings p s)) = v)
   \<and> (p_timePerQuestion p = None \<longrightarrow>
        timePerQuestion (gameSettings (setGameSettings p s)) = timePerQuestion (gameSettings s))
   \<and> (\<forall>v. p_difficulty p = Some v \<longrightarrow>
          difficulty (gameSettings (setGameSettings p s)) = v)
   \<and> (p_difficulty p = None \<longrightarrow>
        difficulty (gameSettings (setGameSettings p s)) = difficulty (gameSettings s))
   \<and> (\<forall>v. p_categories p = Some v \<longrightarrow>
          categories (gameSettings (setGameSettings p s)) = v)
   \<and> (p_categories p = None \<longrightarrow>
        categories (gameSettings (setGameSettings p s)) = categories (gameSettings s))"
  by (simp add: setGameSettings_def Let_def)

theorem setGameSettings_merge_witness:
  "p_questionsPerGame (only_questionsPerGame 5) = Some 5
   \<and> p_timePerQuestion (only_questionsPerGame 5) = None
   \<and> p_difficulty (only_questionsPerGame 5) = None
   \<and> p_categories (only_questionsPerGame 5) = None
   \<and> setGameSettings (only_questionsPerGame 5) demo_lobby =
        demo_lobby\<lparr>gameSettings := defaultGameSettings\<lparr>questionsPerGame := 5\<rparr>\<rparr>
   \<and> p_questionsPerGame demo_partial = None
   \<and> p_timePerQuestion demo_partial = Some 60
   \<and> p_difficulty demo_partial = Some ''easy''
   \<and> p_categories demo_partial = Some [''energy'']
   \<and> gameSettings (setGameSettings demo_partial demo_lobby) =
        \<lparr>questionsPerGame = 10, timePerQuestion = 60, difficulty = ''easy'',
         categories = [''energy'']\<rparr>"
proof -
  let ?s5 = "setGameSettings (only_questionsPerGame 5) demo_lobby"
  let ?sp = "setGameSettings demo_partial demo_lobby"
  have p: "p_questionsPerGame (only_questionsPerGame 5) = Some 5"
    "p_timePerQuestion (only_questionsPerGame 5) = None"
    "p_difficulty (only_questionsPerGame 5) = None"
    "p_categories (only_questionsPerGame 5) = None"
    "p_questionsPerGame demo_partial = None"
    "p_timePerQuestion demo_partial = Some 60"
    "p_difficulty demo_partial = Some ''easy''"
    "p_categories demo_partial = Some [''energy'']"
    by (simp_all add: only_questionsPerGame_def demo_partial_def)
  have g: "gameSettings demo_lobby = defaultGameSettings"
    by (simp add: demo_lobby_eq)
  have d: "questionsPerGame defaultGameSettings = 10"
    by (simp add: defaultGameSettings_def)
  from setGameSettings_merge [of "only_questionsPerGame 5" demo_lobby] p g
  have q: "questionsPerGame (gameSettings ?s5) = 5"
    "timePerQuestion (gameSettings ?s5) = timePerQuestion defaultGameSettings"
    "difficulty (gameSettings ?s5) = difficulty defaultGameSettings"
    "categories (gameSettings ?s5) = categories defaultGameSettings"
    and rest: "?s5 = demo_lobby\<lparr>gameSettings := gameSettings ?s5\<rparr>"
    by simp_all
  from q have e: "gameSettings ?s5 = defaultGameSettings\<lparr>questionsPerGame := 5\<rparr>"
    by simp
  from setGameSettings_merge [of demo_partial demo_lobby] p g d
  have "questionsPerGame (gameSettings ?sp) = 10" "timePerQuestion (gameSettings ?sp) = 60"
    "difficulty (gameSettings ?sp) = ''easy''" "categories (gameSettings ?sp) = [''energy'']"
    by simp_all
  then have f: "gameSettings ?sp =
        \<lparr>questionsPerGame = 10, timePerQuestion = 60, difficulty = ''easy'',
         categories = [''energy'']\<rparr>"
    by simp
  from rest e have "?s5 = demo_lobby\<lparr>gameSettings := defaultGameSettings\<lparr>questionsPerGame := 5\<rparr>\<rparr>"
    by simp
  with p f show ?thesis by simp
qed

text \<open>
  C10. \<^verbatim>\<open>startGame\<close>, \<^verbatim>\<open>submitAnswer\<close>, \<^verbatim>\<open>nextQuestion\<close> and
  \<^verbatim>\<open>endGame\<close> write the active-room slot only: the list of the lobby, with its copy
  of the active room, is the same after the action as before.
\<close>

theorem in_game_actions_keep_lobby:
  "availableRooms (startGame mq rs s) = availableRooms s
   \<and> availableRooms (submitAnswer a t s) = availableRooms s
   \<and> availableRooms (nextQuestion mq rs s) = availableRooms s
   \<and> availableRooms (endGame s) = availableRooms s"
  by (simp add: startGame_def submitAnswer_def nextQuestion_def endGame_def Let_def
      split: option.splits)

theorem in_game_actions_keep_lobby_witness:
  "availableRooms demo_lobby = [demo_room]
   \<and> availableRooms (endGame (submitAnswer (Fin 2) (Fin 10) (startGame demo_questions [Suc 0] demo_lobby)))
        = [demo_room]
   \<and> availableRooms (nextQuestion demo_questions [] demo_lobby) = [demo_room]
   \<and> gameState demo_room = Waiting"
proof -
  have a: "availableRooms demo_lobby = [demo_room]"
    by (simp add: demo_lobby_eq)
  from in_game_actions_keep_lobby [of demo_questions "[Suc 0]" demo_lobby]
    in_game_actions_keep_lobby
      [of _ _ "startGame demo_questions [Suc 0] demo_lobby" "Fin 2" "Fin 10"]
    in_game_actions_keep_lobby
      [of _ _ "submitAnswer (Fin 2) (Fin 10) (startGame demo_questions [Suc 0] demo_lobby)"]
    in_game_actions_keep_lobby [of demo_questions "[]" demo_lobby]
  show ?thesis
    by (simp add: a demo_room_def)
qed

end
